theory Spec2Isabelle
  imports Main "HOL-Library.Word"
begin

unbundle bit_operations_syntax

section \<open>Bytes and strings\<close>

text \<open>
  A Node \<open>Buffer\<close> holds bytes. JavaScript strings are modelled as \<open>string\<close>, one
  \<open>char\<close> per byte of their UTF-8 encoding, so \<open>Buffer.from(s)\<close> is \<open>bytes_of s\<close>.
\<close>

type_synonym byte = "8 word"
type_synonym u32 = "32 word"

definition bytes_of :: "string \<Rightarrow> byte list" where
  "bytes_of s = map (\<lambda>c. of_nat (of_char c)) s"

subsection \<open>Base64: \<open>.toString("base64")\<close> and \<open>.digest("base64")\<close>\<close>

definition b64_alphabet :: string where
  "b64_alphabet = ''ABCDEFGHIJKLMNOPQRSTUVWXYZabcdefghijklmnopqrstuvwxyz0123456789+/''"

definition b64_char :: "nat \<Rightarrow> char" where
  "b64_char n = b64_alphabet ! (n mod 64)"

fun base64 :: "byte list \<Rightarrow> string" where
  "base64 [] = []"
| "base64 [a] =
     [b64_char (unat a div 4), b64_char (unat a mod 4 * 16), CHR ''='', CHR ''='']"
| "base64 [a, b] =
     [b64_char (unat a div 4), b64_char (unat a mod 4 * 16 + unat b div 16),
      b64_char (unat b mod 16 * 4), CHR ''='']"
| "base64 (a # b # c # rest) =
     [b64_char (unat a div 4), b64_char (unat a mod 4 * 16 + unat b div 16),
      b64_char (unat b mod 16 * 4 + unat c div 64), b64_char (unat c mod 64)] @ base64 rest"

subsection \<open>MD5: \<open>crypto.createHash("md5").update(buffer)\<close>\<close>

text \<open>
  The hash of Node's \<open>crypto\<close> module, written out after RFC 1321: the message is padded
  with \<open>0x80\<close>, zeros and its bit length (64 bits, little endian) to a multiple of 64
  bytes, read as little-endian 32-bit words, and each block of 16 words goes through 64
  steps on four 32-bit registers.
\<close>

definition md5_K :: "u32 list" where
  "md5_K = [
    0xd76aa478, 0xe8c7b756, 0x242070db, 0xc1bdceee, 0xf57c0faf, 0x4787c62a, 0xa8304613, 0xfd469501,
    0x698098d8, 0x8b44f7af, 0xffff5bb1, 0x895cd7be, 0x6b901122, 0xfd987193, 0xa679438e, 0x49b40821,
    0xf61e2562, 0xc040b340, 0x265e5a51, 0xe9b6c7aa, 0xd62f105d, 0x02441453, 0xd8a1e681, 0xe7d3fbc8,
    0x21e1cde6, 0xc33707d6, 0xf4d50d87, 0x455a14ed, 0xa9e3e905, 0xfcefa3f8, 0x676f02d9, 0x8d2a4c8a,
    0xfffa3942, 0x8771f681, 0x6d9d6122, 0xfde5380c, 0xa4beea44, 0x4bdecfa9, 0xf6bb4b60, 0xbebfbc70,
    0x289b7ec6, 0xeaa127fa, 0xd4ef3085, 0x04881d05, 0xd9d4d039, 0xe6db99e5, 0x1fa27cf8, 0xc4ac5665,
    0xf4292244, 0x432aff97, 0xab9423a7, 0xfc93a039, 0x655b59c3, 0x8f0ccc92, 0xffeff47d, 0x85845dd1,
    0x6fa87e4f, 0xfe2ce6e0, 0xa3014314, 0x4e0811a1, 0xf7537e82, 0xbd3af235, 0x2ad7d2bb, 0xeb86d391]"

definition md5_S :: "nat list" where
  "md5_S = [7, 12, 17, 22, 7, 12, 17, 22, 7, 12, 17, 22, 7, 12, 17, 22,
            5, 9, 14, 20, 5, 9, 14, 20, 5, 9, 14, 20, 5, 9, 14, 20,
            4, 11, 16, 23, 4, 11, 16, 23, 4, 11, 16, 23, 4, 11, 16, 23,
            6, 10, 15, 21, 6, 10, 15, 21, 6, 10, 15, 21, 6, 10, 15, 21]"

definition rotl32 :: "nat \<Rightarrow> u32 \<Rightarrow> u32" where
  "rotl32 n x = push_bit n x OR drop_bit (32 - n) x"

definition md5_length :: "byte list \<Rightarrow> byte list" where
  "md5_length m =
     (let n = (of_nat (8 * length m) :: 64 word)
      in map (\<lambda>i. ucast (drop_bit (8 * i) n)) [0..<8])"

definition md5_pad :: "byte list \<Rightarrow> byte list" where
  "md5_pad m = m @ [0x80] @ replicate ((119 - length m mod 64) mod 64) 0 @ md5_length m"

fun le_words :: "byte list \<Rightarrow> u32 list" where
  "le_words (a # b # c # d # rest) =
     (ucast a OR push_bit 8 (ucast b) OR push_bit 16 (ucast c) OR push_bit 24 (ucast d))
       # le_words rest"
| "le_words _ = []"

type_synonym md5_state = "u32 \<times> u32 \<times> u32 \<times> u32"

definition md5_round :: "nat \<Rightarrow> u32 \<Rightarrow> u32 \<Rightarrow> u32 \<Rightarrow> u32" where
  "md5_round i b c d =
     (if i < 16 then (b AND c) OR (NOT b AND d)
      else if i < 32 then (d AND b) OR (NOT d AND c)
      else if i < 48 then b XOR c XOR d
      else c XOR (b OR NOT d))"

definition md5_index :: "nat \<Rightarrow> nat" where
  "md5_index i =
     (if i < 16 then i
      else if i < 32 then (5 * i + 1) mod 16
      else if i < 48 then (3 * i + 5) mod 16
      else (7 * i) mod 16)"

definition md5_step :: "u32 list \<Rightarrow> nat \<Rightarrow> md5_state \<Rightarrow> md5_state" where
  "md5_step M i st =
     (case st of (a, b, c, d) \<Rightarrow>
        (d, b + rotl32 (md5_S ! i) (a + md5_round i b c d + md5_K ! i + M ! md5_index i), b, c))"

definition md5_block :: "md5_state \<Rightarrow> u32 list \<Rightarrow> md5_state" where
  "md5_block st M =
     (case st of (a0, b0, c0, d0) \<Rightarrow>
        (case fold (md5_step M) [0..<64] st of
           (a, b, c, d) \<Rightarrow> (a0 + a, b0 + b, c0 + c, d0 + d)))"

function md5_blocks :: "md5_state \<Rightarrow> u32 list \<Rightarrow> md5_state" where
  "md5_blocks st ws = (if length ws < 16 then st
                       else md5_blocks (md5_block st (take 16 ws)) (drop 16 ws))"
  by pat_completeness auto
termination
  by (relation "measure (\<lambda>(st, ws). length ws)") auto

declare md5_blocks.simps [simp del]

definition word_le_bytes :: "u32 \<Rightarrow> byte list" where
  "word_le_bytes w =
     [ucast w, ucast (drop_bit 8 w), ucast (drop_bit 16 w), ucast (drop_bit 24 w)]"

definition md5 :: "byte list \<Rightarrow> byte list" where
  "md5 m =
     (case md5_blocks (0x67452301, 0xefcdab89, 0x98badcfe, 0x10325476) (le_words (md5_pad m)) of
        (a, b, c, d) \<Rightarrow> word_le_bytes a @ word_le_bytes b @ word_le_bytes c @ word_le_bytes d)"

section \<open>JavaScript values and errors\<close>

text \<open>
  Response bodies have the TypeScript type \<open>any\<close>: whatever the server sent, parsed.
  An object is an association list (the first binding of a key is the one read);
  numbers are integers, which is all the code compares.
\<close>

datatype js_value =
    JUndefined
  | JNull
  | JBool bool
  | JNumber int
  | JString string
  | JArray "js_value list"
  | JObject "(string \<times> js_value) list"

record axios_response =
  resp_status :: int
  resp_data :: js_value

text \<open>
  What a promise can reject with: an \<open>AxiosError\<close> (its \<open>code\<close> and, when the server
  answered, its \<open>response\<close>), a \<open>TypeError\<close> raised by the language, or anything else.
\<close>

datatype js_error =
    AxiosError "string option" "axios_response option"
  | TypeError string
  | OtherError string

definition nullish :: "js_value \<Rightarrow> bool" where
  "nullish v = (v = JUndefined \<or> v = JNull)"

text \<open>
  \<open>v.k\<close> for the keys this code reads (\<open>temporary_url\<close>, \<open>error\<close>,
  \<open>existing_document_id\<close>): none is a property of a string, number, boolean or array,
  so only an object can hold one. Reading a property of \<open>null\<close> or \<open>undefined\<close> throws.
\<close>

fun member :: "js_value \<Rightarrow> string \<Rightarrow> js_value" where
  "member (JObject kvs) k = (case map_of kvs k of None \<Rightarrow> JUndefined | Some v \<Rightarrow> v)"
| "member _ k = JUndefined"

definition get_prop :: "js_value \<Rightarrow> string \<Rightarrow> js_error + js_value" where
  "get_prop v k =
     (if nullish v
      then Inl (TypeError (''Cannot read properties of null or undefined, reading '' @ k))
      else Inr (member v k))"

definition truthy :: "js_value \<Rightarrow> bool" where
  "truthy v =
     (case v of
        JUndefined \<Rightarrow> False
      | JNull \<Rightarrow> False
      | JBool b \<Rightarrow> b
      | JNumber n \<Rightarrow> n \<noteq> 0
      | JString s \<Rightarrow> s \<noteq> []
      | JArray xs \<Rightarrow> True
      | JObject kvs \<Rightarrow> True)"

fun starts_with :: "string \<Rightarrow> string \<Rightarrow> bool" where
  "starts_with s [] = True"
| "starts_with [] (c # cs) = False"
| "starts_with (x # xs) (c # cs) = (x = c \<and> starts_with xs cs)"

text \<open>\<open>String.prototype.includes\<close>: the needle occurs somewhere in the string.\<close>

fun string_includes :: "string \<Rightarrow> string \<Rightarrow> bool" where
  "string_includes [] needle = (needle = [])"
| "string_includes (x # xs) needle =
     (starts_with (x # xs) needle \<or> string_includes xs needle)"

text \<open>
  \<open>v?.includes(needle)\<close>: \<open>undefined\<close> when \<open>v\<close> is \<open>null\<close> or \<open>undefined\<close>; the substring
  test on a string; the element test on an array; and on any other value \<open>v.includes\<close>
  is not a function, so the call throws.
\<close>

definition optional_includes :: "js_value \<Rightarrow> string \<Rightarrow> js_error + js_value" where
  "optional_includes v needle =
     (case v of
        JUndefined \<Rightarrow> Inr JUndefined
      | JNull \<Rightarrow> Inr JUndefined
      | JString s \<Rightarrow> Inr (JBool (string_includes s needle))
      | JArray xs \<Rightarrow> Inr (JBool (JString needle \<in> set xs))
      | _ \<Rightarrow> Inl (TypeError ''includes is not a function''))"

section \<open>axios\<close>

datatype http_method = GET | POST | PUT | PATCH | DELETE

datatype request_data = JsonData js_value | BufferData "byte list"

text \<open>
  A request as axios hands it to its adapter. The headers are the ones this repository
  sets; the library's own defaults (\<open>Accept\<close>, \<open>User-Agent\<close>) are not listed.
\<close>

record axios_request =
  req_method :: http_method
  req_baseURL :: "string option"
  req_url :: js_value
  req_headers :: "(string \<times> string) list"
  req_data :: request_data

text \<open>
  The world outside the function: the buffers of the program, and the requests sent so
  far, oldest first. The network is a parameter: it answers a request, given the
  requests before it, with a response or with a rejection (no response at all).
\<close>

type_synonym buffer_ref = nat

record world =
  heap :: "buffer_ref \<Rightarrow> byte list"
  sent :: "axios_request list"

datatype adapter_outcome = Responded axios_response | Rejected js_error

type_synonym network = "axios_request list \<Rightarrow> axios_request \<Rightarrow> adapter_outcome"

type_synonym 'a promise = "world \<Rightarrow> (js_error + 'a) \<times> world"

definition validateStatus :: "int \<Rightarrow> bool" where
  "validateStatus status = (200 \<le> status \<and> status < 300)"

text \<open>
  axios settles a response by its status: it resolves when \<open>validateStatus\<close> accepts it
  (or the status is 0), and rejects with an \<open>AxiosError\<close> carrying the response
  otherwise, with code \<open>ERR_BAD_REQUEST\<close> for 4xx and \<open>ERR_BAD_RESPONSE\<close> for 5xx.
\<close>

definition settle :: "adapter_outcome \<Rightarrow> js_error + axios_response" where
  "settle out =
     (case out of
        Rejected e \<Rightarrow> Inl e
      | Responded r \<Rightarrow>
          if resp_status r = 0 \<or> validateStatus (resp_status r) then Inr r
          else Inl (AxiosError
                 (if 400 \<le> resp_status r \<and> resp_status r < 500 then Some ''ERR_BAD_REQUEST''
                  else if 500 \<le> resp_status r \<and> resp_status r < 600 then Some ''ERR_BAD_RESPONSE''
                  else None)
                 (Some r)))"

definition dispatchRequest :: "network \<Rightarrow> axios_request \<Rightarrow> axios_response promise" where
  "dispatchRequest net req w = (settle (net (sent w) req), w\<lparr>sent := sent w @ [req]\<rparr>)"

text \<open>
  \<open>axios.put(url, data, config)\<close> on the library's default instance: no base URL, and
  no headers but the ones of \<open>config\<close>. The body is the content of the buffer when the
  request is made.
\<close>

definition put_config :: "js_value \<Rightarrow> byte list \<Rightarrow> (string \<times> string) list \<Rightarrow> axios_request" where
  "put_config url bytes hdrs =
     \<lparr>req_method = PUT, req_baseURL = None, req_url = url, req_headers = hdrs,
      req_data = BufferData bytes\<rparr>"

definition axios_put ::
  "network \<Rightarrow> js_value \<Rightarrow> buffer_ref \<Rightarrow> (string \<times> string) list \<Rightarrow> axios_response promise"
where
  "axios_put net url buf hdrs w = dispatchRequest net (put_config url (heap w buf) hdrs) w"

text \<open>An instance made by \<open>axios.create\<close> adds its base URL and headers to each request.\<close>

record axios_instance =
  inst_baseURL :: string
  inst_headers :: "(string \<times> string) list"

definition post_config :: "axios_instance \<Rightarrow> string \<Rightarrow> js_value \<Rightarrow> axios_request" where
  "post_config inst url body =
     \<lparr>req_method = POST, req_baseURL = Some (inst_baseURL inst), req_url = JString url,
      req_headers = inst_headers inst, req_data = JsonData body\<rparr>"

definition instance_post ::
  "network \<Rightarrow> axios_instance \<Rightarrow> string \<Rightarrow> js_value \<Rightarrow> axios_response promise"
where
  "instance_post net inst url body = dispatchRequest net (post_config inst url body)"

definition isAxiosError :: "js_error \<Rightarrow> bool" where
  "isAxiosError e = (case e of AxiosError code resp \<Rightarrow> True | _ \<Rightarrow> False)"

section \<open>client.ts\<close>

text \<open>The constructor of \<open>SuperpoweredApiClient\<close>: the authenticated instance.\<close>

definition SuperpoweredApiClient :: "string \<Rightarrow> string \<Rightarrow> string option \<Rightarrow> axios_instance" where
  "SuperpoweredApiClient username password baseURL =
     \<lparr>inst_baseURL = (case baseURL of None \<Rightarrow> ''https://api.superpowered.ai/v1'' | Some u \<Rightarrow> u),
      inst_headers =
        [(''Authorization'', ''Basic '' @ base64 (bytes_of (username @ '':'' @ password))),
         (''Accept'', ''application/json''),
         (''Content-Type'', ''application/json'')]\<rparr>"

section \<open>documents.ts\<close>

record upload_options =
  linkToSource :: "string option"
  suppId :: "string option"
  description :: "string option"
  isUpdate :: "bool option"
  chunkHeader :: "string option"
  autoContext :: "bool option"

text \<open>\<open>options?.field\<close>: \<open>undefined\<close> when the options or the field are missing.\<close>

definition opt_string :: "upload_options option \<Rightarrow> (upload_options \<Rightarrow> string option) \<Rightarrow> js_value" where
  "opt_string options field =
     (case options of None \<Rightarrow> JUndefined
      | Some opts \<Rightarrow> (case field opts of None \<Rightarrow> JUndefined | Some s \<Rightarrow> JString s))"

definition opt_bool :: "upload_options option \<Rightarrow> (upload_options \<Rightarrow> bool option) \<Rightarrow> js_value" where
  "opt_bool options field =
     (case options of None \<Rightarrow> JUndefined
      | Some opts \<Rightarrow> (case field opts of None \<Rightarrow> JUndefined | Some b \<Rightarrow> JBool b))"

text \<open>The result object: \<open>None\<close> is a property the object does not have.\<close>

record upload_result =
  success :: bool
  existingDocumentId :: "js_value option"
  errorMessage :: "js_value option"

definition signed_url_path :: "string \<Rightarrow> string" where
  "signed_url_path knowledgeBaseId =
     ''/knowledge_bases/'' @ knowledgeBaseId @ ''/documents/request_signed_file_url''"

definition requestSignedFileUrl ::
  "network \<Rightarrow> axios_instance \<Rightarrow> string \<Rightarrow> js_value \<Rightarrow> js_value promise"
where
  "requestSignedFileUrl net inst knowledgeBaseId body w =
     (case instance_post net inst (signed_url_path knowledgeBaseId) body w of
        (Inl e, w') \<Rightarrow> (Inl e, w')
      | (Inr response, w') \<Rightarrow> (Inr (resp_data response), w'))"

text \<open>The object literal of lines 169 to 179.\<close>

definition signed_url_body :: "string \<Rightarrow> string \<Rightarrow> upload_options option \<Rightarrow> js_value" where
  "signed_url_body fileName md5Hash options =
     JObject
       [(''filename'', JString fileName),
        (''encoded_md5'', JString md5Hash),
        (''method'', JString ''PUT''),
        (''link_to_source'', opt_string options linkToSource),
        (''supp_id'', opt_string options suppId),
        (''description'', opt_string options description),
        (''is_update'', opt_bool options isUpdate),
        (''chunk_header'', opt_string options chunkHeader),
        (''auto_context'', opt_bool options autoContext)]"

text \<open>The headers of lines 185 to 188.\<close>

definition put_headers :: "string \<Rightarrow> (string \<times> string) list" where
  "put_headers md5Hash =
     [(''Content-MD5'', md5Hash), (''Content-Type'', ''application/octet-stream'')]"

text \<open>\<open>error.response?.data?.error\<close>, for an error that is an \<open>AxiosError\<close>.\<close>

definition response_error_field :: "js_error \<Rightarrow> js_value" where
  "response_error_field e =
     (case e of
        AxiosError code None \<Rightarrow> JUndefined
      | AxiosError code (Some r) \<Rightarrow>
          if nullish (resp_data r) then JUndefined else member (resp_data r) ''error''
      | _ \<Rightarrow> JUndefined)"

text \<open>
  The \<open>catch\<close> block of lines 192 to 207. A \<open>TypeError\<close> raised while the condition is
  evaluated leaves the block in place of the caught error.
\<close>

definition upload_catch :: "js_error \<Rightarrow> js_error + upload_result" where
  "upload_catch error =
     (case (if isAxiosError error
            then optional_includes (response_error_field error) ''already exists in knowledge base''
            else Inr (JBool False)) of
        Inl thrown \<Rightarrow> Inl thrown
      | Inr cond \<Rightarrow>
          if truthy cond then
            (case error of
               AxiosError code (Some r) \<Rightarrow>
                 (case get_prop (resp_data r) ''existing_document_id'' of
                    Inl thrown \<Rightarrow> Inl thrown
                  | Inr docId \<Rightarrow>
                      (case get_prop (resp_data r) ''error'' of
                         Inl thrown \<Rightarrow> Inl thrown
                       | Inr msg \<Rightarrow>
                           Inr \<lparr>success = False, existingDocumentId = Some docId,
                                errorMessage = Some msg\<rparr>))
             | _ \<Rightarrow> Inl (TypeError ''Cannot read properties of undefined, reading data''))
          else Inl error)"

definition uploadDocument ::
  "network \<Rightarrow> axios_instance \<Rightarrow> string \<Rightarrow> buffer_ref \<Rightarrow> string \<Rightarrow> upload_options option
     \<Rightarrow> upload_result promise"
where
  "uploadDocument net inst knowledgeBaseId fileBuffer fileName options w =
     (let md5Hash = base64 (md5 (heap w fileBuffer)) in
      case requestSignedFileUrl net inst knowledgeBaseId
             (signed_url_body fileName md5Hash options) w of
        (Inl e, w1) \<Rightarrow> (Inl e, w1)
      | (Inr signedUrlResponse, w1) \<Rightarrow>
          (case get_prop signedUrlResponse ''temporary_url'' of
             Inl e \<Rightarrow> (Inl e, w1)
           | Inr signedUrl \<Rightarrow>
               (case axios_put net signedUrl fileBuffer (put_headers md5Hash) w1 of
                  (Inr res, w2) \<Rightarrow>
                    (Inr \<lparr>success = (resp_status res = 200), existingDocumentId = None,
                          errorMessage = None\<rparr>, w2)
                | (Inl error, w2) \<Rightarrow> (upload_catch error, w2))))"

section \<open>Observations on a run\<close>

text \<open>The requests a call has added to the ones sent before it.\<close>

definition new_requests :: "world \<Rightarrow> world \<Rightarrow> axios_request list" where
  "new_requests w w' = drop (length (sent w)) (sent w')"

text \<open>
  The two requests of an upload, as \<open>uploadDocument\<close> builds them from its arguments:
  the request for a signed URL, and the transfer of the buffer to the URL \<open>url\<close>.
\<close>

abbreviation upload_post ::
  "axios_instance \<Rightarrow> string \<Rightarrow> buffer_ref \<Rightarrow> string \<Rightarrow> upload_options option \<Rightarrow> world
     \<Rightarrow> axios_request"
where
  "upload_post inst kb buf name opts w \<equiv>
     post_config inst (signed_url_path kb) (signed_url_body name (base64 (md5 (heap w buf))) opts)"

abbreviation upload_put :: "js_value \<Rightarrow> buffer_ref \<Rightarrow> world \<Rightarrow> axios_request" where
  "upload_put url buf w \<equiv>
     put_config url (heap w buf) (put_headers (base64 (md5 (heap w buf))))"

text \<open>The \<open>encoded_md5\<close> field of a request with a JSON body.\<close>

definition encoded_md5_of :: "axios_request \<Rightarrow> js_value" where
  "encoded_md5_of req =
     (case req_data req of JsonData body \<Rightarrow> member body ''encoded_md5'' | BufferData bytes \<Rightarrow> JUndefined)"

text \<open>The digest a call has sent: the \<open>encoded_md5\<close> of its first request.\<close>

definition digest_sent :: "world \<Rightarrow> world \<Rightarrow> js_value option" where
  "digest_sent w w' =
     (case new_requests w w' of [] \<Rightarrow> None | req # reqs \<Rightarrow> Some (encoded_md5_of req))"

text \<open>
  The terminal states of the specification's state machine, read off what a call gives
  back, in the specification's words: \<open>Succeeded\<close> is the result \<open>{ success: true }\<close>,
  \<open>ConflictDetected\<close> is a result \<open>{ success: false, existingDocumentId, errorMessage }\<close>,
  \<open>Failed\<close> is an error propagated to the caller. \<open>None\<close>: none of the three.
\<close>

datatype terminal_state = Succeeded | ConflictDetected | Failed

definition spec_outcome :: "js_error + upload_result \<Rightarrow> terminal_state option" where
  "spec_outcome res =
     (case res of
        Inl e \<Rightarrow> Some Failed
      | Inr r \<Rightarrow>
          (case (success r, existingDocumentId r, errorMessage r) of
             (True, None, None) \<Rightarrow> Some Succeeded
           | (False, Some docId, Some msg) \<Rightarrow> Some ConflictDetected
           | _ \<Rightarrow> None))"

section \<open>Scenarios\<close>

text \<open>
  The upload of \<open>report.pdf\<close> by a client with the default base URL, against mock
  networks: each grants \<open>https://up.example/abc\<close> (or refuses with 403), and answers
  the transfer with a fixed status and body.
\<close>

definition report_world :: world where
  "report_world = \<lparr>heap = (\<lambda>b. if b = 0 then bytes_of ''%PDF-1.4'' else []), sent = []\<rparr>"

definition report_client :: axios_instance where
  "report_client = SuperpoweredApiClient ''user'' ''pass'' None"

definition grant_response :: axios_response where
  "grant_response =
     \<lparr>resp_status = 200,
      resp_data = JObject [(''temporary_url'', JString ''https://up.example/abc'')]\<rparr>"

definition mock_network :: "axios_response \<Rightarrow> network" where
  "mock_network transfer log req =
     (if req_method req = POST then Responded grant_response else Responded transfer)"

definition refusing_network :: network where
  "refusing_network log req =
     Responded \<lparr>resp_status = 403, resp_data = JObject [(''error'', JString ''forbidden'')]\<rparr>"

definition offline_network :: network where
  "offline_network log req =
     (if req_method req = POST then Responded grant_response
      else Rejected (AxiosError (Some ''ERR_NETWORK'') None))"

definition conflict_response :: axios_response where
  "conflict_response =
     \<lparr>resp_status = 409,
      resp_data = JObject [(''error'', JString ''Document already exists in knowledge base''),
                           (''existing_document_id'', JString ''doc_123'')]\<rparr>"

definition internal_error_response :: axios_response where
  "internal_error_response =
     \<lparr>resp_status = 500, resp_data = JObject [(''error'', JString ''internal error'')]\<rparr>"

text \<open>
  Two answers outside the shape \<open>{ error: string }\<close>: an \<open>error\<close> that is an object
  with a code and a message, and an \<open>error\<close> that is a list of messages.
\<close>

definition structured_error_response :: axios_response where
  "structured_error_response =
     \<lparr>resp_status = 500,
      resp_data = JObject [(''error'', JObject [(''code'', JNumber 500),
                                                (''message'', JString ''internal error'')])]\<rparr>"

definition listed_error_response :: axios_response where
  "listed_error_response =
     \<lparr>resp_status = 500,
      resp_data = JObject [(''error'', JArray [JString ''already exists in knowledge base''])]\<rparr>"

definition status_response :: "int \<Rightarrow> axios_response" where
  "status_response status = \<lparr>resp_status = status, resp_data = JString []\<rparr>"

section \<open>The hash and the substring test\<close>

lemma starts_with_iff: "starts_with s needle \<longleftrightarrow> (\<exists>q. s = needle @ q)"
  by (induction s needle rule: starts_with.induct) auto

lemma string_includes_iff: "string_includes s needle \<longleftrightarrow> (\<exists>p q. s = p @ needle @ q)"
proof (induction s)
  case Nil
  then show ?case by simp
next
  case (Cons x xs)
  have "(\<exists>p q. x # xs = p @ needle @ q) \<longleftrightarrow>
        (\<exists>q. x # xs = needle @ q) \<or> (\<exists>p q. xs = p @ needle @ q)"
  proof
    assume "\<exists>p q. x # xs = p @ needle @ q"
    then obtain p q where pq: "x # xs = p @ needle @ q" by blast
    show "(\<exists>q. x # xs = needle @ q) \<or> (\<exists>p q. xs = p @ needle @ q)"
    proof (cases p)
      case Nil
      with pq show ?thesis by auto
    next
      case (Cons y ys)
      with pq have "xs = ys @ needle @ q" by simp
      then show ?thesis by blast
    qed
  next
    assume "(\<exists>q. x # xs = needle @ q) \<or> (\<exists>p q. xs = p @ needle @ q)"
    then show "\<exists>p q. x # xs = p @ needle @ q"
    proof
      assume "\<exists>q. x # xs = needle @ q"
      then obtain q where "x # xs = [] @ needle @ q" by auto
      then show ?thesis by blast
    next
      assume "\<exists>p q. xs = p @ needle @ q"
      then obtain p q where "x # xs = (x # p) @ needle @ q" by auto
      then show ?thesis by blast
    qed
  qed
  with Cons show ?case by (simp add: starts_with_iff)
qed

text \<open>
  The hash against known digests: of the empty buffer, of \<open>abc\<close> (RFC 1321 gives
  \<open>900150983cd24fb0d6963f7d28e17f72\<close>), of \<open>%PDF-1.4\<close>, and of 64 bytes \<open>A\<close>, which
  take two blocks.
\<close>

lemma digest_empty: "base64 (md5 []) = ''1B2M2Y8AsgTpgAmY7PhCfg==''"
  by code_simp

lemma digest_abc: "base64 (md5 (bytes_of ''abc'')) = ''kAFQmDzST7DWlj99KOF/cg==''"
  by code_simp

lemma digest_report: "base64 (md5 (bytes_of ''%PDF-1.4'')) = ''kUJAElMZKRx8t+cS5BmyVA==''"
  by code_simp

lemma digest_two_blocks: "base64 (md5 (replicate 64 0x41)) = ''0ompdWW8LSesi4VFpd26RQ==''"
  by code_simp

text \<open>A digest is always 16 bytes, 24 characters in base64.\<close>

lemma digest_size: "length (md5 m) = 16" and "length (base64 (md5 m)) = 24"
proof -
  obtain a b c d where "md5_blocks (0x67452301, 0xefcdab89, 0x98badcfe, 0x10325476)
      (le_words (md5_pad m)) = (a, b, c, d)"
    by (metis prod_cases4)
  then show "length (md5 m) = 16" and "length (base64 (md5 m)) = 24"
    by (simp_all add: md5_def word_le_bytes_def)
qed

lemma basic_credentials: "base64 (bytes_of ''user:pass'') = ''dXNlcjpwYXNz''"
  by code_simp

section \<open>The steps of an upload\<close>

lemma requestSignedFileUrl_run:
  "requestSignedFileUrl net inst kb body w =
     (map_sum id resp_data (settle (net (sent w) (post_config inst (signed_url_path kb) body))),
      w\<lparr>sent := sent w @ [post_config inst (signed_url_path kb) body]\<rparr>)"
  by (simp add: requestSignedFileUrl_def instance_post_def dispatchRequest_def split: sum.splits)

lemma axios_put_run:
  "axios_put net url buf hdrs w =
     (settle (net (sent w) (put_config url (heap w buf) hdrs)),
      w\<lparr>sent := sent w @ [put_config url (heap w buf) hdrs]\<rparr>)"
  by (simp add: axios_put_def dispatchRequest_def)

lemma uploadDocument_negotiation_fails:
  assumes "fst (requestSignedFileUrl net inst kb
                  (signed_url_body name (base64 (md5 (heap w buf))) opts) w) = Inl e"
  shows "uploadDocument net inst kb buf name opts w =
           (Inl e, w\<lparr>sent := sent w @ [post_config inst (signed_url_path kb)
                                (signed_url_body name (base64 (md5 (heap w buf))) opts)]\<rparr>)"
proof -
  obtain res w1 where run: "requestSignedFileUrl net inst kb
      (signed_url_body name (base64 (md5 (heap w buf))) opts) w = (res, w1)"
    by (cases "requestSignedFileUrl net inst kb
      (signed_url_body name (base64 (md5 (heap w buf))) opts) w") blast
  with assms have res: "res = Inl e" by simp
  from run have "w1 = w\<lparr>sent := sent w @ [post_config inst (signed_url_path kb)
                                (signed_url_body name (base64 (md5 (heap w buf))) opts)]\<rparr>"
    by (simp add: requestSignedFileUrl_run)
  with run res show ?thesis by (simp add: uploadDocument_def)
qed

lemma uploadDocument_no_url:
  assumes "requestSignedFileUrl net inst kb
             (signed_url_body name (base64 (md5 (heap w buf))) opts) w = (Inr grant, w1)"
    and "get_prop grant ''temporary_url'' = Inl e"
  shows "uploadDocument net inst kb buf name opts w = (Inl e, w1)"
  using assms by (simp add: uploadDocument_def)

lemma uploadDocument_transfer:
  assumes "requestSignedFileUrl net inst kb
             (signed_url_body name (base64 (md5 (heap w buf))) opts) w = (Inr grant, w1)"
    and "get_prop grant ''temporary_url'' = Inr signedUrl"
  shows "uploadDocument net inst kb buf name opts w =
           (case axios_put net signedUrl buf (put_headers (base64 (md5 (heap w buf)))) w1 of
              (Inr res, w2) \<Rightarrow>
                (Inr \<lparr>success = (resp_status res = 200), existingDocumentId = None,
                      errorMessage = None\<rparr>, w2)
            | (Inl error, w2) \<Rightarrow> (upload_catch error, w2))"
  using assms by (simp add: uploadDocument_def)

lemma granted_world:
  assumes "requestSignedFileUrl net inst kb body w = (res, w1)"
  shows "heap w1 = heap w" and "sent w1 = sent w @ [post_config inst (signed_url_path kb) body]"
  using assms by (auto simp: requestSignedFileUrl_run)

lemma upload_catch_conflict:
  assumes "member (resp_data r) ''error'' = JString msg"
    and "string_includes msg ''already exists in knowledge base''"
  shows "upload_catch (AxiosError code (Some r)) =
           Inr \<lparr>success = False,
                existingDocumentId = Some (member (resp_data r) ''existing_document_id''),
                errorMessage = Some (JString msg)\<rparr>"
proof -
  from assms(1) have data: "\<not> nullish (resp_data r)"
    by (auto simp: nullish_def)
  with assms show ?thesis
    by (simp add: upload_catch_def isAxiosError_def response_error_field_def
        optional_includes_def truthy_def get_prop_def)
qed

lemma upload_catch_rethrow:
  assumes "\<not> isAxiosError e \<or> nullish (response_error_field e) \<or>
           (\<exists>msg. response_error_field e = JString msg \<and>
              \<not> string_includes msg ''already exists in knowledge base'')"
  shows "upload_catch e = Inl e"
  using assms
  by (auto simp: upload_catch_def optional_includes_def truthy_def nullish_def)

text \<open>
  Outside the response shape \<open>{ error: string }\<close>: an \<open>error\<close> that is a number, a
  boolean or an object has no \<open>includes\<close>, and the \<open>catch\<close> block throws a \<open>TypeError\<close>;
  on an array, \<open>includes\<close> is the element test.
\<close>

lemma upload_catch_error_not_a_string:
  assumes "member (resp_data r) ''error'' = v"
    and "v = JNumber n \<or> v = JBool b \<or> v = JObject kvs"
  shows "upload_catch (AxiosError code (Some r)) = Inl (TypeError ''includes is not a function'')"
proof -
  from assms have "\<not> nullish (resp_data r)"
    by (auto simp: nullish_def)
  with assms show ?thesis
    by (auto simp: upload_catch_def isAxiosError_def response_error_field_def
        optional_includes_def)
qed

section \<open>Conflict resolution\<close>

text \<open>
  C1. When the direct upload fails with an HTTP error response whose body has an
  \<open>error\<close> string containing \<open>already exists in knowledge base\<close>, \<open>uploadDocument\<close>
  returns, as a normal result, \<open>success: false\<close> with the body's \<open>existing_document_id\<close>
  and the body's \<open>error\<close> string.
\<close>

theorem conflict_is_returned:
  assumes "requestSignedFileUrl net inst kb
             (signed_url_body name (base64 (md5 (heap w buf))) opts) w = (Inr grant, w1)"
    and "get_prop grant ''temporary_url'' = Inr signedUrl"
    and "fst (axios_put net signedUrl buf (put_headers (base64 (md5 (heap w buf)))) w1) =
           Inl (AxiosError code (Some r))"
    and "member (resp_data r) ''error'' = JString msg"
    and "string_includes msg ''already exists in knowledge base''"
  shows "fst (uploadDocument net inst kb buf name opts w) =
           Inr \<lparr>success = False,
                existingDocumentId = Some (member (resp_data r) ''existing_document_id''),
                errorMessage = Some (JString msg)\<rparr>"
proof -
  from assms(3) obtain w2 where
    "axios_put net signedUrl buf (put_headers (base64 (md5 (heap w buf)))) w1 =
       (Inl (AxiosError code (Some r)), w2)"
    by (metis prod.collapse)
  with uploadDocument_transfer [OF assms(1,2)]
  have "fst (uploadDocument net inst kb buf name opts w) = upload_catch (AxiosError code (Some r))"
    by simp
  with upload_catch_conflict [OF assms(4,5)] show ?thesis by simp
qed

theorem conflict_is_returned_witness:
  "fst (uploadDocument (mock_network conflict_response) report_client ''kb_1'' 0 ''report.pdf''
          None report_world) =
     Inr \<lparr>success = False, existingDocumentId = Some (JString ''doc_123''),
          errorMessage = Some (JString ''Document already exists in knowledge base'')\<rparr>"
proof -
  let ?d = "base64 (md5 (heap report_world 0))"
  let ?w1 = "report_world\<lparr>sent := sent report_world @
      [post_config report_client (signed_url_path ''kb_1'') (signed_url_body ''report.pdf'' ?d None)]\<rparr>"
  have h1: "requestSignedFileUrl (mock_network conflict_response) report_client ''kb_1''
              (signed_url_body ''report.pdf'' ?d None) report_world =
            (Inr (resp_data grant_response), ?w1)"
    by (simp add: requestSignedFileUrl_run mock_network_def post_config_def settle_def
        validateStatus_def grant_response_def)
  have h2: "get_prop (resp_data grant_response) ''temporary_url'' =
            Inr (JString ''https://up.example/abc'')"
    by (simp add: get_prop_def nullish_def grant_response_def)
  have h3: "fst (axios_put (mock_network conflict_response) (JString ''https://up.example/abc'') 0
                   (put_headers ?d) ?w1) =
            Inl (AxiosError (Some ''ERR_BAD_REQUEST'') (Some conflict_response))"
    by (simp add: axios_put_run mock_network_def put_config_def settle_def validateStatus_def
        conflict_response_def)
  have h4: "member (resp_data conflict_response) ''error'' =
            JString ''Document already exists in knowledge base''"
    by (simp add: conflict_response_def)
  have h5: "string_includes ''Document already exists in knowledge base''
              ''already exists in knowledge base''"
    by simp
  from conflict_is_returned [OF h1 h2 h3 h4 h5] show ?thesis
    by (simp add: conflict_response_def)
qed

text \<open>
  Where the \<open>catch\<close> block does rethrow: when the direct upload fails with an error that
  is not an axios error, or has no response (a network failure), or whose body has no
  \<open>error\<close> field, or whose \<open>error\<close> is a string that does not contain
  \<open>already exists in knowledge base\<close>, \<open>uploadDocument\<close> rethrows that very error.
\<close>

lemma other_errors_are_rethrown:
  assumes "requestSignedFileUrl net inst kb
             (signed_url_body name (base64 (md5 (heap w buf))) opts) w = (Inr grant, w1)"
    and "get_prop grant ''temporary_url'' = Inr signedUrl"
    and "fst (axios_put net signedUrl buf (put_headers (base64 (md5 (heap w buf)))) w1) = Inl e"
    and "\<not> isAxiosError e \<or> nullish (response_error_field e) \<or>
         (\<exists>msg. response_error_field e = JString msg \<and>
            \<not> string_includes msg ''already exists in knowledge base'')"
  shows "fst (uploadDocument net inst kb buf name opts w) = Inl e"
proof -
  from assms(3) obtain w2 where
    "axios_put net signedUrl buf (put_headers (base64 (md5 (heap w buf)))) w1 = (Inl e, w2)"
    by (metis prod.collapse)
  with uploadDocument_transfer [OF assms(1,2)]
  have "fst (uploadDocument net inst kb buf name opts w) = upload_catch e"
    by simp
  with upload_catch_rethrow [OF assms(4)] show ?thesis by simp
qed

lemma other_errors_are_rethrown_example:
  "fst (uploadDocument (mock_network internal_error_response) report_client ''kb_1'' 0
          ''report.pdf'' None report_world) =
     Inl (AxiosError (Some ''ERR_BAD_RESPONSE'') (Some internal_error_response))
   \<and> fst (uploadDocument offline_network report_client ''kb_1'' 0 ''report.pdf'' None
            report_world) =
     Inl (AxiosError (Some ''ERR_NETWORK'') None)"
proof -
  let ?d = "base64 (md5 (heap report_world 0))"
  let ?w1 = "report_world\<lparr>sent := sent report_world @
      [post_config report_client (signed_url_path ''kb_1'') (signed_url_body ''report.pdf'' ?d None)]\<rparr>"
  let ?e = "AxiosError (Some ''ERR_BAD_RESPONSE'') (Some internal_error_response)"
  let ?off = "AxiosError (Some ''ERR_NETWORK'') None"
  have h1: "requestSignedFileUrl (mock_network internal_error_response) report_client ''kb_1''
              (signed_url_body ''report.pdf'' ?d None) report_world =
            (Inr (resp_data grant_response), ?w1)"
    by (simp add: requestSignedFileUrl_run mock_network_def post_config_def settle_def
        validateStatus_def grant_response_def)
  have g1: "requestSignedFileUrl offline_network report_client ''kb_1''
              (signed_url_body ''report.pdf'' ?d None) report_world =
            (Inr (resp_data grant_response), ?w1)"
    by (simp add: requestSignedFileUrl_run offline_network_def post_config_def settle_def
        validateStatus_def grant_response_def)
  have h2: "get_prop (resp_data grant_response) ''temporary_url'' =
            Inr (JString ''https://up.example/abc'')"
    by (simp add: get_prop_def nullish_def grant_response_def)
  have h3: "fst (axios_put (mock_network internal_error_response)
                   (JString ''https://up.example/abc'') 0 (put_headers ?d) ?w1) = Inl ?e"
    by (simp add: axios_put_run mock_network_def put_config_def settle_def validateStatus_def
        internal_error_response_def)
  have g3: "fst (axios_put offline_network (JString ''https://up.example/abc'') 0
                   (put_headers ?d) ?w1) = Inl ?off"
    by (simp add: axios_put_run offline_network_def put_config_def settle_def)
  have h4: "\<not> isAxiosError ?e \<or> nullish (response_error_field ?e) \<or>
         (\<exists>msg. response_error_field ?e = JString msg \<and>
            \<not> string_includes msg ''already exists in knowledge base'')"
    by (simp add: response_error_field_def internal_error_response_def nullish_def)
  have g4: "\<not> isAxiosError ?off \<or> nullish (response_error_field ?off) \<or>
         (\<exists>msg. response_error_field ?off = JString msg \<and>
            \<not> string_includes msg ''already exists in knowledge base'')"
    by (simp add: response_error_field_def nullish_def)
  from other_errors_are_rethrown [OF h1 h2 h3 h4] other_errors_are_rethrown [OF g1 h2 g3 g4]
  show ?thesis by simp
qed

text \<open>
  C2. Every error of the direct upload that does not carry the signature should reach
  the caller unchanged. The code departs from this when the body's \<open>error\<close> is not a
  string: a 500 whose body is \<open>{ error: { code: 500, message: "internal error" } }\<close>
  makes \<open>axios.put\<close> reject with an \<open>AxiosError\<close> holding that response, the condition
  of the \<open>catch\<close> block calls \<open>includes\<close> on the object, and \<open>uploadDocument\<close> rejects
  with a new \<open>TypeError\<close> in place of the error it caught.
\<close>

theorem structured_error_is_masked:
  "settle (Responded structured_error_response) =
     Inl (AxiosError (Some ''ERR_BAD_RESPONSE'') (Some structured_error_response)) \<and>
   upload_catch (AxiosError (Some ''ERR_BAD_RESPONSE'') (Some structured_error_response)) =
     Inl (TypeError ''includes is not a function'') \<and>
   fst (uploadDocument (mock_network structured_error_response) report_client ''kb_1'' 0
          ''report.pdf'' None report_world) =
     Inl (TypeError ''includes is not a function'')"
  by (simp add: uploadDocument_def requestSignedFileUrl_run axios_put_run mock_network_def
      post_config_def put_config_def settle_def validateStatus_def grant_response_def
      structured_error_response_def get_prop_def nullish_def upload_catch_def isAxiosError_def
      response_error_field_def optional_includes_def Let_def)

text \<open>
  On a list, \<open>includes\<close> is the element test: a 500 whose \<open>error\<close> is the list holding
  exactly \<open>already exists in knowledge base\<close> comes back as a conflict result, with the
  list as \<open>errorMessage\<close>.
\<close>

lemma listed_error_is_reclassified:
  "fst (uploadDocument (mock_network listed_error_response) report_client ''kb_1'' 0
          ''report.pdf'' None report_world) =
     Inr \<lparr>success = False, existingDocumentId = Some JUndefined,
          errorMessage = Some (JArray [JString ''already exists in knowledge base''])\<rparr>"
  by (simp add: uploadDocument_def requestSignedFileUrl_run axios_put_run mock_network_def
      post_config_def put_config_def settle_def validateStatus_def grant_response_def
      listed_error_response_def get_prop_def nullish_def upload_catch_def isAxiosError_def
      response_error_field_def optional_includes_def truthy_def Let_def)

section \<open>The direct transfer\<close>

text \<open>
  C3. When the direct PUT to the signed URL is answered with HTTP status 200,
  \<open>uploadDocument\<close> returns \<open>{ success: true }\<close>, with neither \<open>existingDocumentId\<close> nor
  \<open>errorMessage\<close>.
\<close>

theorem success_on_status_200:
  assumes "requestSignedFileUrl net inst kb
             (signed_url_body name (base64 (md5 (heap w buf))) opts) w = (Inr grant, w1)"
    and "get_prop grant ''temporary_url'' = Inr signedUrl"
    and "net (sent w1) (put_config signedUrl (heap w buf) (put_headers (base64 (md5 (heap w buf)))))
           = Responded res"
    and "resp_status res = 200"
  shows "fst (uploadDocument net inst kb buf name opts w) =
           Inr \<lparr>success = True, existingDocumentId = None, errorMessage = None\<rparr>"
proof -
  have "heap w1 = heap w"
    using assms(1) by (rule granted_world)
  with assms(3,4)
  have "fst (axios_put net signedUrl buf (put_headers (base64 (md5 (heap w buf)))) w1) = Inr res"
    by (simp add: axios_put_run settle_def validateStatus_def)
  with assms(4) uploadDocument_transfer [OF assms(1,2)] show ?thesis
    by (auto split: prod.splits sum.splits)
qed

theorem success_on_status_200_witness:
  "fst (uploadDocument (mock_network (status_response 200)) report_client ''kb_1'' 0
          ''report.pdf'' None report_world) =
     Inr \<lparr>success = True, existingDocumentId = None, errorMessage = None\<rparr>"
proof -
  let ?d = "base64 (md5 (heap report_world 0))"
  let ?w1 = "report_world\<lparr>sent := sent report_world @
      [post_config report_client (signed_url_path ''kb_1'') (signed_url_body ''report.pdf'' ?d None)]\<rparr>"
  have h1: "requestSignedFileUrl (mock_network (status_response 200)) report_client ''kb_1''
              (signed_url_body ''report.pdf'' ?d None) report_world =
            (Inr (resp_data grant_response), ?w1)"
    by (simp add: requestSignedFileUrl_run mock_network_def post_config_def settle_def
        validateStatus_def grant_response_def)
  have h2: "get_prop (resp_data grant_response) ''temporary_url'' =
            Inr (JString ''https://up.example/abc'')"
    by (simp add: get_prop_def nullish_def grant_response_def)
  have h3: "mock_network (status_response 200) (sent ?w1)
              (put_config (JString ''https://up.example/abc'') (heap report_world 0) (put_headers ?d))
            = Responded (status_response 200)"
    by (simp add: mock_network_def put_config_def)
  have h4: "resp_status (status_response 200) = 200"
    by (simp add: status_response_def)
  from success_on_status_200 [OF h1 h2 h3 h4] show ?thesis .
qed

section \<open>All the paths of an upload\<close>

lemma uploadDocument_cases:
  obtains
    (refused) e where
      "settle (net (sent w) (upload_post inst kb buf name opts w)) = Inl e"
      "uploadDocument net inst kb buf name opts w =
         (Inl e, w\<lparr>sent := sent w @ [upload_post inst kb buf name opts w]\<rparr>)"
  | (no_grant) r e where
      "settle (net (sent w) (upload_post inst kb buf name opts w)) = Inr r"
      "get_prop (resp_data r) ''temporary_url'' = Inl e"
      "uploadDocument net inst kb buf name opts w =
         (Inl e, w\<lparr>sent := sent w @ [upload_post inst kb buf name opts w]\<rparr>)"
  | (resolved) r url res where
      "settle (net (sent w) (upload_post inst kb buf name opts w)) = Inr r"
      "get_prop (resp_data r) ''temporary_url'' = Inr url"
      "settle (net (sent w @ [upload_post inst kb buf name opts w]) (upload_put url buf w)) = Inr res"
      "uploadDocument net inst kb buf name opts w =
         (Inr \<lparr>success = (resp_status res = 200), existingDocumentId = None,
               errorMessage = None\<rparr>,
          w\<lparr>sent := sent w @ [upload_post inst kb buf name opts w, upload_put url buf w]\<rparr>)"
  | (rejected) r url e where
      "settle (net (sent w) (upload_post inst kb buf name opts w)) = Inr r"
      "get_prop (resp_data r) ''temporary_url'' = Inr url"
      "settle (net (sent w @ [upload_post inst kb buf name opts w]) (upload_put url buf w)) = Inl e"
      "uploadDocument net inst kb buf name opts w =
         (upload_catch e,
          w\<lparr>sent := sent w @ [upload_post inst kb buf name opts w, upload_put url buf w]\<rparr>)"
proof (cases "settle (net (sent w) (upload_post inst kb buf name opts w))")
  case (Inl e)
  then have "uploadDocument net inst kb buf name opts w =
      (Inl e, w\<lparr>sent := sent w @ [upload_post inst kb buf name opts w]\<rparr>)"
    by (simp add: uploadDocument_def requestSignedFileUrl_run Let_def)
  with Inl show ?thesis by (rule refused)
next
  case grant: (Inr r)
  show ?thesis
  proof (cases "get_prop (resp_data r) ''temporary_url''")
    case (Inl e)
    with grant have "uploadDocument net inst kb buf name opts w =
        (Inl e, w\<lparr>sent := sent w @ [upload_post inst kb buf name opts w]\<rparr>)"
      by (simp add: uploadDocument_def requestSignedFileUrl_run Let_def)
    with grant Inl show ?thesis by (rule no_grant)
  next
    case url: (Inr url)
    show ?thesis
    proof (cases "settle (net (sent w @ [upload_post inst kb buf name opts w])
                    (upload_put url buf w))")
      case (Inl e)
      with grant url have "uploadDocument net inst kb buf name opts w =
          (upload_catch e,
           w\<lparr>sent := sent w @ [upload_post inst kb buf name opts w, upload_put url buf w]\<rparr>)"
        by (simp add: uploadDocument_def requestSignedFileUrl_run axios_put_run Let_def)
      with grant url Inl show ?thesis by (rule rejected)
    next
      case (Inr res)
      with grant url have "uploadDocument net inst kb buf name opts w =
          (Inr \<lparr>success = (resp_status res = 200), existingDocumentId = None,
                errorMessage = None\<rparr>,
           w\<lparr>sent := sent w @ [upload_post inst kb buf name opts w, upload_put url buf w]\<rparr>)"
        by (simp add: uploadDocument_def requestSignedFileUrl_run axios_put_run Let_def)
      with grant url Inr show ?thesis by (rule resolved)
    qed
  qed
qed

lemma uploadDocument_requests:
  "new_requests w (snd (uploadDocument net inst kb buf name opts w)) =
     [upload_post inst kb buf name opts w] \<or>
   (\<exists>url. new_requests w (snd (uploadDocument net inst kb buf name opts w)) =
     [upload_post inst kb buf name opts w, upload_put url buf w])"
  by (cases rule: uploadDocument_cases
        [where net = net and w = w and inst = inst and kb = kb and buf = buf and name = name
           and opts = opts])
     (auto simp: new_requests_def)

lemma uploadDocument_first_request:
  "hd (new_requests w (snd (uploadDocument net inst kb buf name opts w))) =
     upload_post inst kb buf name opts w"
  using uploadDocument_requests
    [where net = net and w = w and inst = inst and kb = kb and buf = buf and name = name
       and opts = opts]
  by auto

lemma uploadDocument_digest_sent:
  "digest_sent w (snd (uploadDocument net inst kb buf name opts w)) =
     Some (JString (base64 (md5 (heap w buf))))"
proof -
  have "encoded_md5_of (upload_post inst kb buf name opts w) = JString (base64 (md5 (heap w buf)))"
    by (simp add: encoded_md5_of_def post_config_def signed_url_body_def)
  then show ?thesis
    using uploadDocument_requests
      [where net = net and w = w and inst = inst and kb = kb and buf = buf and name = name
         and opts = opts]
    by (auto simp: digest_sent_def)
qed

lemma uploadDocument_heap:
  "heap (snd (uploadDocument net inst kb buf name opts w)) = heap w"
  by (cases rule: uploadDocument_cases
        [where net = net and w = w and inst = inst and kb = kb and buf = buf and name = name
           and opts = opts])
     simp_all

lemma uploadDocument_granted_requests:
  assumes "requestSignedFileUrl net inst kb
             (signed_url_body name (base64 (md5 (heap w buf))) opts) w = (Inr grant, w1)"
    and "get_prop grant ''temporary_url'' = Inr signedUrl"
  shows "new_requests w (snd (uploadDocument net inst kb buf name opts w)) =
           [upload_post inst kb buf name opts w, upload_put signedUrl buf w]"
proof -
  from assms(1) have w1: "w1 = w\<lparr>sent := sent w @ [upload_post inst kb buf name opts w]\<rparr>"
    by (simp add: requestSignedFileUrl_run)
  show ?thesis
    unfolding uploadDocument_transfer [OF assms] new_requests_def
    by (simp add: axios_put_run w1 split: sum.splits)
qed

lemma upload_catch_cases:
  "(\<exists>thrown. upload_catch e = Inl thrown) \<or>
   (\<exists>docId msg. upload_catch e =
      Inr \<lparr>success = False, existingDocumentId = Some docId, errorMessage = Some msg\<rparr>)"
  by (auto simp: upload_catch_def split: sum.splits js_error.splits option.splits)

section \<open>Negotiation\<close>

text \<open>
  C4. When the request for a signed URL fails, \<open>uploadDocument\<close> fails with the
  negotiator's error, and the only request it has sent is that one: no PUT is attempted.
\<close>

theorem negotiation_failure_aborts:
  assumes "fst (requestSignedFileUrl net inst kb
                  (signed_url_body name (base64 (md5 (heap w buf))) opts) w) = Inl e"
  shows "fst (uploadDocument net inst kb buf name opts w) = Inl e \<and>
         new_requests w (snd (uploadDocument net inst kb buf name opts w)) =
           [upload_post inst kb buf name opts w] \<and>
         (\<forall>r \<in> set (new_requests w (snd (uploadDocument net inst kb buf name opts w))).
            req_method r \<noteq> PUT)"
  using uploadDocument_negotiation_fails [OF assms]
  by (simp add: new_requests_def post_config_def)

theorem negotiation_failure_aborts_witness:
  "fst (uploadDocument refusing_network report_client ''kb_1'' 0 ''report.pdf'' None report_world) =
     Inl (AxiosError (Some ''ERR_BAD_REQUEST'')
            (Some \<lparr>resp_status = 403, resp_data = JObject [(''error'', JString ''forbidden'')]\<rparr>))
   \<and> map req_method
         (new_requests report_world
            (snd (uploadDocument refusing_network report_client ''kb_1'' 0 ''report.pdf'' None
                    report_world))) = [POST]"
proof -
  have h: "fst (requestSignedFileUrl refusing_network report_client ''kb_1''
                  (signed_url_body ''report.pdf'' (base64 (md5 (heap report_world 0))) None)
                  report_world) =
           Inl (AxiosError (Some ''ERR_BAD_REQUEST'')
                  (Some \<lparr>resp_status = 403,
                         resp_data = JObject [(''error'', JString ''forbidden'')]\<rparr>))"
    by (simp add: requestSignedFileUrl_run refusing_network_def settle_def validateStatus_def)
  from negotiation_failure_aborts [OF h] show ?thesis
    by (simp add: post_config_def)
qed

text \<open>
  C5. The digest is the base64 encoding of the MD5 hash of the buffer. The request for
  a signed URL carries the given file name as \<open>filename\<close> and that digest as
  \<open>encoded_md5\<close>; and when a URL is granted, the next request is a PUT to exactly that
  URL whose \<open>Content-MD5\<close> header is the same digest.
\<close>

theorem digest_and_name_are_forwarded:
  "let digest = base64 (md5 (heap w buf));
       new = new_requests w (snd (uploadDocument net inst kb buf name opts w))
   in new \<noteq> [] \<and> req_method (hd new) = POST \<and>
      req_data (hd new) = JsonData (signed_url_body name digest opts) \<and>
      member (signed_url_body name digest opts) ''filename'' = JString name \<and>
      member (signed_url_body name digest opts) ''encoded_md5'' = JString digest \<and>
      (\<forall>grant w1 signedUrl.
         requestSignedFileUrl net inst kb (signed_url_body name digest opts) w = (Inr grant, w1)
           \<longrightarrow> get_prop grant ''temporary_url'' = Inr signedUrl
           \<longrightarrow> length new = 2 \<and> req_method (new ! 1) = PUT \<and> req_url (new ! 1) = signedUrl \<and>
               map_of (req_headers (new ! 1)) ''Content-MD5'' = Some digest)"
proof -
  have "member (signed_url_body name (base64 (md5 (heap w buf))) opts) ''filename'' = JString name"
    and "member (signed_url_body name (base64 (md5 (heap w buf))) opts) ''encoded_md5'' =
           JString (base64 (md5 (heap w buf)))"
    by (simp_all add: signed_url_body_def)
  moreover have "req_method (upload_post inst kb buf name opts w) = POST"
    and "req_data (upload_post inst kb buf name opts w) =
           JsonData (signed_url_body name (base64 (md5 (heap w buf))) opts)"
    by (simp_all add: post_config_def)
  moreover have "new_requests w (snd (uploadDocument net inst kb buf name opts w)) \<noteq> []"
    using uploadDocument_requests
      [where net = net and w = w and inst = inst and kb = kb and buf = buf and name = name
         and opts = opts]
    by auto
  moreover have "req_method (upload_put url buf w) = PUT"
    and "req_url (upload_put url buf w) = url"
    and "map_of (req_headers (upload_put url buf w)) ''Content-MD5'' =
           Some (base64 (md5 (heap w buf)))" for url
    by (simp_all add: put_config_def put_headers_def)
  moreover have "length (new_requests w (snd (uploadDocument net inst kb buf name opts w))) = 2 \<and>
      new_requests w (snd (uploadDocument net inst kb buf name opts w)) ! 1 =
        upload_put signedUrl buf w"
    if "requestSignedFileUrl net inst kb
          (signed_url_body name (base64 (md5 (heap w buf))) opts) w = (Inr grant, w1)"
      and "get_prop grant ''temporary_url'' = Inr signedUrl" for grant w1 signedUrl
    using uploadDocument_granted_requests [OF that] by simp
  ultimately show ?thesis
    unfolding Let_def uploadDocument_first_request by metis
qed

theorem digest_and_name_are_forwarded_witness:
  "encoded_md5_of
     (new_requests report_world
        (snd (uploadDocument (mock_network (status_response 200)) report_client ''kb_1'' 0
                ''report.pdf'' None report_world)) ! 0) = JString ''kUJAElMZKRx8t+cS5BmyVA=='' \<and>
   req_url
     (new_requests report_world
        (snd (uploadDocument (mock_network (status_response 200)) report_client ''kb_1'' 0
                ''report.pdf'' None report_world)) ! 1) = JString ''https://up.example/abc'' \<and>
   map_of (req_headers
     (new_requests report_world
        (snd (uploadDocument (mock_network (status_response 200)) report_client ''kb_1'' 0
                ''report.pdf'' None report_world)) ! 1)) ''Content-MD5'' =
     Some ''kUJAElMZKRx8t+cS5BmyVA==''"
proof -
  let ?d = "base64 (md5 (heap report_world 0))"
  let ?w1 = "report_world\<lparr>sent := sent report_world @
      [post_config report_client (signed_url_path ''kb_1'') (signed_url_body ''report.pdf'' ?d None)]\<rparr>"
  let ?new = "new_requests report_world
        (snd (uploadDocument (mock_network (status_response 200)) report_client ''kb_1'' 0
                ''report.pdf'' None report_world))"
  have d: "?d = ''kUJAElMZKRx8t+cS5BmyVA==''"
    by (simp add: report_world_def digest_report)
  have h1: "requestSignedFileUrl (mock_network (status_response 200)) report_client ''kb_1''
              (signed_url_body ''report.pdf'' ?d None) report_world =
            (Inr (resp_data grant_response), ?w1)"
    by (simp add: requestSignedFileUrl_run mock_network_def post_config_def settle_def
        validateStatus_def grant_response_def)
  have h2: "get_prop (resp_data grant_response) ''temporary_url'' =
            Inr (JString ''https://up.example/abc'')"
    by (simp add: get_prop_def nullish_def grant_response_def)
  from digest_and_name_are_forwarded
    [of report_world 0 "mock_network (status_response 200)" report_client "''kb_1''"
        "''report.pdf''" None]
  have "req_data (hd ?new) = JsonData (signed_url_body ''report.pdf'' ?d None) \<and>
        length ?new = 2 \<and> req_url (?new ! 1) = JString ''https://up.example/abc'' \<and>
        map_of (req_headers (?new ! 1)) ''Content-MD5'' = Some ?d"
    using h1 h2 unfolding Let_def by blast
  then have "encoded_md5_of (?new ! 0) = JString ?d \<and>
        req_url (?new ! 1) = JString ''https://up.example/abc'' \<and>
        map_of (req_headers (?new ! 1)) ''Content-MD5'' = Some ?d"
    by (cases ?new) (simp_all add: encoded_md5_of_def signed_url_body_def)
  then show ?thesis
    unfolding d .
qed

section \<open>The digest\<close>

text \<open>
  C6. The digest is deterministic: two uploads of buffers holding the same bytes \<open>B\<close>
  (the empty buffer included) send the same digest, the base64 MD5 of \<open>B\<close>, whatever
  the network, the client, the knowledge base, the file name, the options and the
  requests sent before.
\<close>

theorem digest_is_deterministic:
  assumes "heap w1 buf1 = B" and "heap w2 buf2 = B"
  shows "digest_sent w1 (snd (uploadDocument net1 inst1 kb1 buf1 name1 opts1 w1)) =
         digest_sent w2 (snd (uploadDocument net2 inst2 kb2 buf2 name2 opts2 w2)) \<and>
         digest_sent w1 (snd (uploadDocument net1 inst1 kb1 buf1 name1 opts1 w1)) =
           Some (JString (base64 (md5 B)))"
  using assms by (simp add: uploadDocument_digest_sent)

theorem digest_is_deterministic_witness:
  "digest_sent report_world
     (snd (uploadDocument refusing_network report_client ''kb_1'' 1 ''empty.txt'' None
             report_world)) =
   digest_sent report_world
     (snd (uploadDocument offline_network (SuperpoweredApiClient ''u'' ''p'' (Some ''http://localhost''))
             ''kb_2'' 2 ''nothing.bin'' None report_world)) \<and>
   digest_sent report_world
     (snd (uploadDocument refusing_network report_client ''kb_1'' 1 ''empty.txt'' None
             report_world)) = Some (JString ''1B2M2Y8AsgTpgAmY7PhCfg=='')"
proof -
  have h1: "heap report_world 1 = []" and h2: "heap report_world 2 = []"
    by (simp_all add: report_world_def)
  from digest_is_deterministic
    [OF h1 h2, where ?net1.0 = refusing_network and ?inst1.0 = report_client
       and ?kb1.0 = "''kb_1''" and ?name1.0 = "''empty.txt''" and ?opts1.0 = None
       and ?net2.0 = offline_network
       and ?inst2.0 = "SuperpoweredApiClient ''u'' ''p'' (Some ''http://localhost'')"
       and ?kb2.0 = "''kb_2''" and ?name2.0 = "''nothing.bin''" and ?opts2.0 = None]
  show ?thesis
    unfolding digest_empty .
qed

section \<open>The transfer request\<close>

text \<open>
  C7. For a client made by \<open>SuperpoweredApiClient\<close>, once a URL is granted the transfer
  is the second and last request: a PUT to the granted URL, with the headers
  \<open>Content-MD5\<close> (the digest) and \<open>Content-Type: application/octet-stream\<close>, and the bytes
  of the buffer as body. It does not go through the authenticated instance: it has no
  base URL and no \<open>Authorization\<close> header, which the request for the URL does carry.
\<close>

theorem transfer_is_a_bare_put:
  assumes "requestSignedFileUrl net (SuperpoweredApiClient username password baseURL) kb
             (signed_url_body name (base64 (md5 (heap w buf))) opts) w = (Inr grant, w1)"
    and "get_prop grant ''temporary_url'' = Inr signedUrl"
  shows "let new = new_requests w
           (snd (uploadDocument net (SuperpoweredApiClient username password baseURL) kb buf
                   name opts w))
         in length new = 2 \<and>
            new ! 1 =
              \<lparr>req_method = PUT, req_baseURL = None, req_url = signedUrl,
               req_headers = [(''Content-MD5'', base64 (md5 (heap w buf))),
                              (''Content-Type'', ''application/octet-stream'')],
               req_data = BufferData (heap w buf)\<rparr> \<and>
            map_of (req_headers (new ! 1)) ''Authorization'' = None \<and>
            map_of (req_headers (new ! 0)) ''Authorization'' =
              Some (''Basic '' @ base64 (bytes_of (username @ '':'' @ password)))"
  unfolding Let_def uploadDocument_granted_requests [OF assms]
  by (simp add: put_config_def put_headers_def post_config_def SuperpoweredApiClient_def)

theorem transfer_is_a_bare_put_witness:
  "new_requests report_world
     (snd (uploadDocument (mock_network conflict_response) report_client ''kb_1'' 0
             ''report.pdf'' None report_world)) ! 1 =
     \<lparr>req_method = PUT, req_baseURL = None, req_url = JString ''https://up.example/abc'',
      req_headers = [(''Content-MD5'', ''kUJAElMZKRx8t+cS5BmyVA==''),
                     (''Content-Type'', ''application/octet-stream'')],
      req_data = BufferData (bytes_of ''%PDF-1.4'')\<rparr> \<and>
   map_of (req_headers (new_requests report_world
     (snd (uploadDocument (mock_network conflict_response) report_client ''kb_1'' 0
             ''report.pdf'' None report_world)) ! 0)) ''Authorization'' =
     Some ''Basic dXNlcjpwYXNz''"
proof -
  let ?d = "base64 (md5 (heap report_world 0))"
  let ?w1 = "report_world\<lparr>sent := sent report_world @
      [post_config report_client (signed_url_path ''kb_1'') (signed_url_body ''report.pdf'' ?d None)]\<rparr>"
  have bytes: "heap report_world 0 = bytes_of ''%PDF-1.4''"
    by (simp add: report_world_def)
  have cred: "base64 (bytes_of (''user'' @ '':'' @ ''pass'')) = ''dXNlcjpwYXNz''"
    using basic_credentials by simp
  have h1: "requestSignedFileUrl (mock_network conflict_response)
              (SuperpoweredApiClient ''user'' ''pass'' None) ''kb_1''
              (signed_url_body ''report.pdf'' ?d None) report_world =
            (Inr (resp_data grant_response), ?w1)"
    by (simp add: requestSignedFileUrl_run mock_network_def post_config_def settle_def
        validateStatus_def grant_response_def report_client_def)
  have h2: "get_prop (resp_data grant_response) ''temporary_url'' =
            Inr (JString ''https://up.example/abc'')"
    by (simp add: get_prop_def nullish_def grant_response_def)
  from transfer_is_a_bare_put [OF h1 h2] show ?thesis
    unfolding Let_def report_client_def bytes digest_report cred by simp
qed

section \<open>The input buffer\<close>

text \<open>
  C9. \<open>uploadDocument\<close> does not mutate the input buffer: on every path all buffers
  hold after the call what they held before it, the digest sent is the digest of the
  bytes the caller supplied, and the body of a PUT, when one is sent, is those bytes.
\<close>

theorem input_buffer_is_not_mutated:
  "heap (snd (uploadDocument net inst kb buf name opts w)) = heap w \<and>
   digest_sent w (snd (uploadDocument net inst kb buf name opts w)) =
     Some (JString (base64 (md5 (heap w buf)))) \<and>
   (\<forall>r \<in> set (new_requests w (snd (uploadDocument net inst kb buf name opts w))).
      req_method r = PUT \<longrightarrow> req_data r = BufferData (heap w buf))"
proof -
  have "req_method (upload_post inst kb buf name opts w) \<noteq> PUT"
    by (simp add: post_config_def)
  moreover have "req_data (upload_put url buf w) = BufferData (heap w buf)" for url
    by (simp add: put_config_def)
  ultimately show ?thesis
    using uploadDocument_requests
      [where net = net and w = w and inst = inst and kb = kb and buf = buf and name = name
         and opts = opts]
    by (auto simp: uploadDocument_heap uploadDocument_digest_sent)
qed

theorem input_buffer_is_not_mutated_witness:
  "heap (snd (uploadDocument (mock_network conflict_response) report_client ''kb_1'' 0
                ''report.pdf'' None report_world)) 0 = bytes_of ''%PDF-1.4'' \<and>
   req_data (last (new_requests report_world
     (snd (uploadDocument (mock_network conflict_response) report_client ''kb_1'' 0
             ''report.pdf'' None report_world)))) = BufferData (bytes_of ''%PDF-1.4'')"
proof -
  let ?new = "new_requests report_world
     (snd (uploadDocument (mock_network conflict_response) report_client ''kb_1'' 0
             ''report.pdf'' None report_world))"
  have bytes: "heap report_world 0 = bytes_of ''%PDF-1.4''"
    by (simp add: report_world_def)
  have new: "?new = [upload_post report_client ''kb_1'' 0 ''report.pdf'' None report_world,
                     upload_put (JString ''https://up.example/abc'') 0 report_world]"
    by (simp add: uploadDocument_def requestSignedFileUrl_run axios_put_run mock_network_def
        post_config_def put_config_def settle_def validateStatus_def grant_response_def
        conflict_response_def get_prop_def nullish_def new_requests_def Let_def)
  then have last: "last ?new \<in> set ?new" "req_method (last ?new) = PUT"
    by (simp_all add: put_config_def)
  note frame = input_buffer_is_not_mutated
    [of "mock_network conflict_response" report_client "''kb_1''" 0 "''report.pdf''" None
        report_world]
  from frame have "heap (snd (uploadDocument (mock_network conflict_response) report_client
      ''kb_1'' 0 ''report.pdf'' None report_world)) 0 = heap report_world 0"
    by simp
  moreover from frame last have "req_data (last ?new) = BufferData (heap report_world 0)"
    by blast
  ultimately show ?thesis
    unfolding bytes by simp
qed

section \<open>Outcomes\<close>

text \<open>
  C10. When the direct PUT is answered with a 2xx status other than 200, which axios
  resolves rather than rejects, \<open>uploadDocument\<close> returns \<open>{ success: false }\<close> with
  neither \<open>existingDocumentId\<close> nor \<open>errorMessage\<close>: a result that is none of the
  specification's Success, Conflict and propagated Failure.
\<close>

theorem other_2xx_is_bare_failure:
  assumes "requestSignedFileUrl net inst kb
             (signed_url_body name (base64 (md5 (heap w buf))) opts) w = (Inr grant, w1)"
    and "get_prop grant ''temporary_url'' = Inr signedUrl"
    and "net (sent w1) (upload_put signedUrl buf w) = Responded res"
    and "200 \<le> resp_status res" and "resp_status res < 300" and "resp_status res \<noteq> 200"
  shows "fst (uploadDocument net inst kb buf name opts w) =
           Inr \<lparr>success = False, existingDocumentId = None, errorMessage = None\<rparr> \<and>
         spec_outcome (fst (uploadDocument net inst kb buf name opts w)) = None"
proof -
  have "heap w1 = heap w"
    using assms(1) by (rule granted_world)
  with assms(3-5)
  have "fst (axios_put net signedUrl buf (put_headers (base64 (md5 (heap w buf)))) w1) = Inr res"
    by (simp add: axios_put_run settle_def validateStatus_def)
  with assms(6) uploadDocument_transfer [OF assms(1,2)]
  have "fst (uploadDocument net inst kb buf name opts w) =
          Inr \<lparr>success = False, existingDocumentId = None, errorMessage = None\<rparr>"
    by (auto split: prod.splits sum.splits)
  then show ?thesis
    by (simp add: spec_outcome_def)
qed

theorem other_2xx_is_bare_failure_witness:
  "fst (uploadDocument (mock_network (status_response 201)) report_client ''kb_1'' 0
          ''report.pdf'' None report_world) =
     Inr \<lparr>success = False, existingDocumentId = None, errorMessage = None\<rparr>"
proof -
  let ?d = "base64 (md5 (heap report_world 0))"
  let ?w1 = "report_world\<lparr>sent := sent report_world @
      [post_config report_client (signed_url_path ''kb_1'') (signed_url_body ''report.pdf'' ?d None)]\<rparr>"
  have h1: "requestSignedFileUrl (mock_network (status_response 201)) report_client ''kb_1''
              (signed_url_body ''report.pdf'' ?d None) report_world =
            (Inr (resp_data grant_response), ?w1)"
    by (simp add: requestSignedFileUrl_run mock_network_def post_config_def settle_def
        validateStatus_def grant_response_def)
  have h2: "get_prop (resp_data grant_response) ''temporary_url'' =
            Inr (JString ''https://up.example/abc'')"
    by (simp add: get_prop_def nullish_def grant_response_def)
  have h3: "mock_network (status_response 201) (sent ?w1)
              (upload_put (JString ''https://up.example/abc'') 0 report_world)
            = Responded (status_response 201)"
    by (simp add: mock_network_def put_config_def)
  have h4: "200 \<le> resp_status (status_response 201)"
    and h5: "resp_status (status_response 201) < 300"
    and h6: "resp_status (status_response 201) \<noteq> 200"
    by (simp_all add: status_response_def)
  from other_2xx_is_bare_failure [OF h1 h2 h3 h4 h5 h6] show ?thesis
    by (rule conjunct1)
qed

text \<open>
  C8, as the specification states it, fails: an upload whose PUT is answered with 204
  ends in none of Succeeded, ConflictDetected and Failed.
\<close>

theorem three_outcomes_counterexample:
  "spec_outcome
     (fst (uploadDocument (mock_network (status_response 204)) report_client ''kb_1'' 0
             ''report.pdf'' None report_world)) = None"
  by (simp add: uploadDocument_def requestSignedFileUrl_run axios_put_run mock_network_def
      post_config_def put_config_def settle_def validateStatus_def grant_response_def
      status_response_def get_prop_def nullish_def spec_outcome_def Let_def)

text \<open>
  C8, amended. Every call of \<open>uploadDocument\<close> makes a single pass: it adds to the
  requests sent either the one request for a signed URL, or that request followed by
  one PUT, and nothing else; and it ends in exactly one of Succeeded, ConflictDetected,
  Failed, or the bare result \<open>{ success: false }\<close>, the last only when the PUT was
  resolved with a status other than 200.
\<close>

theorem single_pass_four_outcomes:
  "let res = fst (uploadDocument net inst kb buf name opts w);
       w' = snd (uploadDocument net inst kb buf name opts w);
       new = new_requests w w'
   in sent w' = sent w @ new \<and>
      (map req_method new = [POST] \<or> map req_method new = [POST, PUT]) \<and>
      (spec_outcome res = Some Succeeded \<or> spec_outcome res = Some ConflictDetected \<or>
       spec_outcome res = Some Failed \<or>
       res = Inr \<lparr>success = False, existingDocumentId = None, errorMessage = None\<rparr>) \<and>
      (res = Inr \<lparr>success = False, existingDocumentId = None, errorMessage = None\<rparr> \<longrightarrow>
         (\<exists>url r. new = [upload_post inst kb buf name opts w, upload_put url buf w] \<and>
            settle (net (sent w @ [upload_post inst kb buf name opts w]) (upload_put url buf w)) =
              Inr r \<and>
            resp_status r \<noteq> 200))"
proof (cases rule: uploadDocument_cases
    [where net = net and w = w and inst = inst and kb = kb and buf = buf and name = name
       and opts = opts])
  case (refused e)
  then show ?thesis
    by (simp add: Let_def new_requests_def spec_outcome_def post_config_def)
next
  case (no_grant r e)
  then show ?thesis
    by (simp add: Let_def new_requests_def spec_outcome_def post_config_def)
next
  case (resolved r url res)
  then show ?thesis
    by (auto simp: Let_def new_requests_def spec_outcome_def post_config_def put_config_def)
next
  case (rejected r url e)
  from upload_catch_cases [of e] show ?thesis
  proof
    assume "\<exists>thrown. upload_catch e = Inl thrown"
    with rejected show ?thesis
      by (auto simp: Let_def new_requests_def spec_outcome_def post_config_def put_config_def)
  next
    assume "\<exists>docId msg. upload_catch e =
      Inr \<lparr>success = False, existingDocumentId = Some docId, errorMessage = Some msg\<rparr>"
    with rejected show ?thesis
      by (auto simp: Let_def new_requests_def spec_outcome_def post_config_def put_config_def)
  qed
qed

theorem single_pass_four_outcomes_witness:
  "map req_method (new_requests report_world
     (snd (uploadDocument (mock_network (status_response 202)) report_client ''kb_1'' 0
             ''report.pdf'' None report_world))) = [POST, PUT] \<and>
   fst (uploadDocument (mock_network (status_response 202)) report_client ''kb_1'' 0
          ''report.pdf'' None report_world) =
     Inr \<lparr>success = False, existingDocumentId = None, errorMessage = None\<rparr>"
proof -
  let ?run = "uploadDocument (mock_network (status_response 202)) report_client ''kb_1'' 0
          ''report.pdf'' None report_world"
  have run: "fst ?run =
      Inr \<lparr>success = False, existingDocumentId = None, errorMessage = None\<rparr>"
    by (simp add: uploadDocument_def requestSignedFileUrl_run axios_put_run mock_network_def
      post_config_def put_config_def settle_def validateStatus_def grant_response_def
      status_response_def get_prop_def nullish_def Let_def)
  with single_pass_four_outcomes
    [of "mock_network (status_response 202)" report_client "''kb_1''" 0 "''report.pdf''" None
        report_world]
  obtain url where
    "new_requests report_world (snd ?run) =
       [upload_post report_client ''kb_1'' 0 ''report.pdf'' None report_world,
        upload_put url 0 report_world]"
    unfolding Let_def by blast
  then have "map req_method (new_requests report_world (snd ?run)) = [POST, PUT]"
    by (simp add: post_config_def put_config_def)
  with run show ?thesis by simp
qed

end
